theory Spec2Isabelle
  imports Complex_Main
begin

section \<open>Data model (models.py)\<close>

text \<open>
  Python floats are modelled as real numbers: the arithmetic of the server is the
  arithmetic of the reals, without the rounding of IEEE doubles, and every timestamp is
  taken inside the range that \<^verbatim>\<open>datetime\<close> supports (years 1 to 9999), where
  \<^verbatim>\<open>datetime.fromtimestamp\<close>, \<^verbatim>\<open>astimezone\<close> and \<^verbatim>\<open>int\<close> do not raise.
  Python's unbounded integers are \<^typ>\<open>int\<close>.
\<close>

datatype AccuracyMode = FAST | ACCURATE

fun AccuracyMode_value :: "AccuracyMode \<Rightarrow> string" where
  "AccuracyMode_value FAST = ''fast''"
| "AccuracyMode_value ACCURATE = ''accurate''"

datatype ConsensusMethod = MEDIAN_WITH_OUTLIER_REJECTION | SYSTEM_FALLBACK

fun ConsensusMethod_value :: "ConsensusMethod \<Rightarrow> string" where
  "ConsensusMethod_value MEDIAN_WITH_OUTLIER_REJECTION = ''median_with_outlier_rejection''"
| "ConsensusMethod_value SYSTEM_FALLBACK = ''system_fallback''"

datatype ClockStatus = OK | DRIFT | ERROR

fun ClockStatus_value :: "ClockStatus \<Rightarrow> string" where
  "ClockStatus_value OK = ''ok''"
| "ClockStatus_value DRIFT = ''drift''"
| "ClockStatus_value ERROR = ''error''"

datatype NTPError = TIMEOUT | DNS_ERROR | NETWORK_ERROR | PARSE_ERROR

record NTPResponse =
  server :: string
  timestamp :: real
  rtt_ms :: real
  stratum :: int
  success :: bool
  error :: "string option"
  error_type :: "NTPError option"

record SourceSample =
  server :: string
  success :: bool
  timestamp :: "real option"
  rtt_ms :: "real option"
  stratum :: "int option"
  error :: "string option"

record TimeConsensus =
  timestamp :: real
  iso8601_time :: string
  epoch_ms :: int
  sources_used :: int
  total_sources :: int
  consensus_method :: ConsensusMethod
  estimated_error_ms :: real
  source_samples :: "SourceSample list"
  warnings :: "string list"
  system_time :: string
  system_delta_ms :: real

text \<open>
  \<^verbatim>\<open>TimeResponse.source_samples\<close> holds \<^verbatim>\<open>s.model_dump()\<close> of every sample: a
  dictionary with the sample's six fields under their own names, kept here as the record.
\<close>

record TimeResponse =
  iso8601_time :: string
  epoch_ms :: int
  sources_used :: int
  total_sources :: int
  consensus_method :: string
  estimated_error_ms :: real
  source_samples :: "SourceSample list"
  warnings :: "string list"
  system_time :: string
  system_delta_ms :: real
  query_duration_ms :: real
  latency_compensated :: bool

record TimezoneResponse = TimeResponse +
  timezone :: string
  local_time :: string

record ClockComparisonResponse =
  system_time :: string
  trusted_time :: string
  delta_ms :: real
  estimated_error_ms :: real
  status :: ClockStatus

section \<open>Python library functions used by server.py\<close>

text \<open>An exception, with the text that \<^verbatim>\<open>str(e)\<close> and \<^verbatim>\<open>f"{e}"\<close> give.\<close>

datatype py_exception = Exception (exc_str: string)

text \<open>\<^verbatim>\<open>int(x)\<close> of a float: truncation towards zero.\<close>

definition py_int :: "real \<Rightarrow> int" where
  "py_int x = (if 0 \<le> x then \<lfloor>x\<rfloor> else \<lceil>x\<rceil>)"

text \<open>Rounding to the nearest integer, a tie to the even one (Python's rounding).\<close>

definition round_half_even :: "real \<Rightarrow> int" where
  "round_half_even x =
     (let f = \<lfloor>x\<rfloor>; d = x - of_int f
      in if d < 1 / 2 then f
         else if 1 / 2 < d then f + 1
         else if even f then f else f + 1)"

text \<open>\<^verbatim>\<open>xs[:n]\<close>: a negative bound counts from the end of the list.\<close>

definition py_slice_to :: "'a list \<Rightarrow> int \<Rightarrow> 'a list" where
  "py_slice_to xs n =
     (if 0 \<le> n then take (nat n) xs else take (nat (int (length xs) + n)) xs)"

definition digit_char :: "nat \<Rightarrow> char" where
  "digit_char d = ''0123456789'' ! d"

function string_of_nat :: "nat \<Rightarrow> string" where
  "string_of_nat n =
     (if n < 10 then [digit_char n]
      else string_of_nat (n div 10) @ [digit_char (n mod 10)])"
  by pat_completeness auto
termination
  by (relation "measure id") auto

text \<open>\<^verbatim>\<open>f"{x:.1f}"\<close>: one digit after the decimal point.\<close>

definition format_1f :: "real \<Rightarrow> string" where
  "format_1f x =
     (let n = nat (round_half_even (\<bar>x\<bar> * 10))
      in (if x < 0 then ''-'' else []) @ string_of_nat (n div 10) @ ''.'' @
         string_of_nat (n mod 10))"

text \<open>
  An aware \<^verbatim>\<open>datetime\<close>: the instant it denotes, in microseconds since the Unix epoch,
  and the offset from UTC of its zone at that instant, in seconds. A \<^verbatim>\<open>tzinfo\<close> gives
  the offset at every instant.
\<close>

record datetime =
  dt_micros :: int
  dt_utcoffset :: int

type_synonym tzinfo = "int \<Rightarrow> int"

text \<open>\<^verbatim>\<open>datetime.fromtimestamp(t, tz=UTC)\<close> rounds to the microsecond, half to even.\<close>

definition fromtimestamp_utc :: "real \<Rightarrow> datetime" where
  "fromtimestamp_utc t = \<lparr>dt_micros = round_half_even (t * 1000000), dt_utcoffset = 0\<rparr>"

text \<open>\<^verbatim>\<open>dt.astimezone(tz)\<close>: the same instant, seen from another zone.\<close>

definition astimezone :: "datetime \<Rightarrow> tzinfo \<Rightarrow> datetime" where
  "astimezone dt tz = \<lparr>dt_micros = dt_micros dt, dt_utcoffset = tz (dt_micros dt)\<rparr>"

section \<open>The collaborators of server.py\<close>

text \<open>
  The fields of the configuration that the tools read. The configuration module, the NTP
  client and the consensus engine are not part of the sources at hand: the tools are
  modelled over any client and any engine, each of which either returns or raises, and
  over the text that \<^verbatim>\<open>isoformat\<close> prints and the zones that \<^verbatim>\<open>ZoneInfo\<close> knows.
  The three readings of \<^verbatim>\<open>time_module.time()\<close> in \<^verbatim>\<open>get_time_utc\<close> are inputs, in the
  order in which the code takes them.
\<close>

record config =
  ntp_servers :: "string list"
  fast_mode_server_count :: int

record env =
  config :: config
  query_multiple_servers :: "string list \<Rightarrow> py_exception + NTPResponse list"
  compute_consensus :: "NTPResponse list \<Rightarrow> py_exception + TimeConsensus"
  time_query_start :: real
  time_query_end :: real
  time_current_system :: real
  isoformat :: "datetime \<Rightarrow> string"
  ZoneInfo :: "string \<Rightarrow> py_exception + tzinfo"

section \<open>The tools (server.py)\<close>

text \<open>
  \<^verbatim>\<open>AccuracyMode\<close> is a \<^verbatim>\<open>str\<close> enumeration and Python does not enforce the
  annotation of \<^verbatim>\<open>mode\<close>: the argument is the string that arrives, and
  \<^verbatim>\<open>mode == AccuracyMode.FAST\<close> holds exactly when it is \<^verbatim>\<open>"fast"\<close>.
\<close>

text \<open>The selection of the servers for the mode, the first step of \<^verbatim>\<open>get_time_utc\<close>.\<close>

definition select_servers :: "config \<Rightarrow> string \<Rightarrow> string list" where
  "select_servers cfg mode =
     (if mode = AccuracyMode_value FAST
      then py_slice_to (ntp_servers cfg) (fast_mode_server_count cfg)
      else ntp_servers cfg)"

definition get_time_utc :: "env \<Rightarrow> string \<Rightarrow> bool \<Rightarrow> py_exception + TimeResponse" where
  "get_time_utc env mode compensate_latency =
     (let query_start = time_query_start env;
          servers = select_servers (config env) mode
      in case query_multiple_servers env servers of
           Inl e \<Rightarrow> Inl e
         | Inr responses \<Rightarrow>
            (case compute_consensus env responses of
               Inl e \<Rightarrow> Inl e
             | Inr consensus \<Rightarrow>
                (let query_duration = time_query_end env - query_start;
                     query_duration_ms = query_duration * 1000;
                     (iso8601_time, epoch_ms, estimated_error_ms, warnings, system_delta_ms) =
                       (if compensate_latency
                        then (let compensated_timestamp =
                                    TimeConsensus.timestamp consensus + query_duration;
                                  compensated_epoch_ms = py_int (compensated_timestamp * 1000);
                                  compensated_iso8601 =
                                    isoformat env (fromtimestamp_utc compensated_timestamp);
                                  warnings =
                                    (if 100 < query_duration_ms
                                     then TimeConsensus.warnings consensus @
                                          [''Applied +'' @ format_1f query_duration_ms @
                                           ''ms latency compensation to timestamp'']
                                     else TimeConsensus.warnings consensus);
                                  adjusted_error =
                                    TimeConsensus.estimated_error_ms consensus +
                                    query_duration_ms * 0.1;
                                  current_system_time = time_current_system env;
                                  system_delta_ms =
                                    (current_system_time - compensated_timestamp) * 1000
                              in (compensated_iso8601, compensated_epoch_ms, adjusted_error,
                                  warnings, system_delta_ms))
                        else (TimeConsensus.iso8601_time consensus,
                              TimeConsensus.epoch_ms consensus,
                              TimeConsensus.estimated_error_ms consensus,
                              TimeConsensus.warnings consensus,
                              TimeConsensus.system_delta_ms consensus))
                 in Inr \<lparr>
                      iso8601_time = iso8601_time,
                      epoch_ms = epoch_ms,
                      sources_used = TimeConsensus.sources_used consensus,
                      total_sources = TimeConsensus.total_sources consensus,
                      consensus_method =
                        ConsensusMethod_value (TimeConsensus.consensus_method consensus),
                      estimated_error_ms = estimated_error_ms,
                      source_samples = TimeConsensus.source_samples consensus,
                      warnings = warnings,
                      system_time = TimeConsensus.system_time consensus,
                      system_delta_ms = system_delta_ms,
                      query_duration_ms = query_duration_ms,
                      latency_compensated = compensate_latency\<rparr>)))"

text \<open>
  The body of the \<^verbatim>\<open>try\<close> of \<^verbatim>\<open>get_time_for_timezone\<close>, up to the local time: it
  raises what \<^verbatim>\<open>ZoneInfo\<close> raises.
\<close>

definition convert_to_timezone :: "env \<Rightarrow> TimeResponse \<Rightarrow> string \<Rightarrow> py_exception + string" where
  "convert_to_timezone env time_response timezone_name =
     (let utc_timestamp = real_of_int (TimeResponse.epoch_ms time_response) / 1000;
          utc_dt = fromtimestamp_utc utc_timestamp
      in case ZoneInfo env timezone_name of
           Inl e \<Rightarrow> Inl e
         | Inr tz \<Rightarrow> Inr (isoformat env (astimezone utc_dt tz)))"

definition get_time_for_timezone ::
  "env \<Rightarrow> string \<Rightarrow> string \<Rightarrow> bool \<Rightarrow> py_exception + TimezoneResponse" where
  "get_time_for_timezone env timezone_name mode compensate_latency =
     (case get_time_utc env mode compensate_latency of
        Inl e \<Rightarrow> Inl e
      | Inr time_response \<Rightarrow>
         (case convert_to_timezone env time_response timezone_name of
            Inr local_iso \<Rightarrow>
              Inr (TimeResponse.extend time_response
                     (TimezoneResponse.fields timezone_name local_iso))
          | Inl e \<Rightarrow>
              (let warnings = TimeResponse.warnings time_response @
                     [''Failed to convert to timezone '' @ timezone_name @ '': '' @ exc_str e];
                   base_data = time_response
               in Inr (TimeResponse.extend (base_data\<lparr>warnings := warnings\<rparr>)
                         (TimezoneResponse.fields timezone_name (''ERROR: '' @ exc_str e))))))"

definition compare_system_clock :: "env \<Rightarrow> string \<Rightarrow> py_exception + ClockComparisonResponse" where
  "compare_system_clock env mode =
     (case get_time_utc env mode True of
        Inl e \<Rightarrow> Inl e
      | Inr time_response \<Rightarrow>
         (let abs_delta = \<bar>TimeResponse.system_delta_ms time_response\<bar>;
              status = (if abs_delta < 100 then OK
                        else if abs_delta < 1000 then DRIFT
                        else ERROR)
          in Inr \<lparr>
               system_time = TimeResponse.system_time time_response,
               trusted_time = TimeResponse.iso8601_time time_response,
               delta_ms = TimeResponse.system_delta_ms time_response,
               estimated_error_ms = TimeResponse.estimated_error_ms time_response,
               status = status\<rparr>))"

section \<open>The fan-out and the consensus engine, as the specification describes them\<close>

text \<open>
  Modelled from the spec: the Query Fan-Out (\<^verbatim>\<open>NTPClient.query_multiple_servers\<close>,
  ntp_client.py is missing from the sources). Section 4.2: one sample per server
  descriptor, in the order of the input, whatever a single query does. The query of one
  server is a parameter.
\<close>

definition spec_query_multiple_servers ::
  "(string \<Rightarrow> NTPResponse) \<Rightarrow> string list \<Rightarrow> NTPResponse list" where
  "spec_query_multiple_servers query servers = map query servers"

text \<open>
  Modelled from the spec: the configuration of the Consensus Calculator
  (\<^verbatim>\<open>TimeConsensusEngine\<close>, consensus.py is missing from the sources), as far as the
  counts of section 4.3 need it: \<^verbatim>\<open>total_sources\<close> is the number of samples (step 1);
  \<^verbatim>\<open>sources_used\<close> is the number of retained successful samples (step 5), which are
  the successes themselves when there are none or fewer than the configured minimum
  (steps 2 and 3), and otherwise the successes within the outlier threshold of the median
  of the successful timestamps, or all of them when none would be left (step 4).
\<close>

record engine_config =
  max_outlier_deviation_ms :: real
  min_sources :: int

text \<open>
  Modelled from the spec: the median of step 4a (consensus.py is missing): the middle of
  the sorted values, the mean of the two middle ones when their number is even.
\<close>

definition median :: "real list \<Rightarrow> real" where
  "median xs =
     (let s = sort xs; n = length s
      in if odd n then s ! (n div 2) else (s ! (n div 2 - 1) + s ! (n div 2)) / 2)"

text \<open>
  Modelled from the spec: the retained samples of steps 2 to 4 (consensus.py is missing).
  The deviation from the median is in milliseconds, the timestamps are in seconds.
\<close>

definition spec_retained :: "engine_config \<Rightarrow> NTPResponse list \<Rightarrow> NTPResponse list" where
  "spec_retained ecfg samples =
     (let successes = filter NTPResponse.success samples
      in if successes = [] then []
         else if int (length successes) < min_sources ecfg then successes
         else (let m = median (map NTPResponse.timestamp successes);
                   kept = filter (\<lambda>r. \<not> max_outlier_deviation_ms ecfg <
                                        \<bar>NTPResponse.timestamp r - m\<bar> * 1000) successes
               in if kept = [] then successes else kept))"

text \<open>
  Modelled from the spec: \<^verbatim>\<open>sources_used\<close> of step 5 (consensus.py is missing), the
  number of retained successful samples.
\<close>

definition spec_sources_used :: "engine_config \<Rightarrow> NTPResponse list \<Rightarrow> int" where
  "spec_sources_used ecfg samples = int (length (spec_retained ecfg samples))"

text \<open>
  Modelled from the spec: \<^verbatim>\<open>total_sources\<close> of step 1 (consensus.py is missing), the
  number of all samples.
\<close>

definition spec_total_sources :: "NTPResponse list \<Rightarrow> int" where
  "spec_total_sources samples = int (length samples)"

text \<open>
  Modelled from the spec: \<^verbatim>\<open>compute_consensus\<close> (consensus.py is missing), as far as
  the counts go: the two counts are the specification's, and \<open>other\<close> gives the fields of
  the result that are not modelled.
\<close>

definition spec_compute_consensus ::
  "engine_config \<Rightarrow> (NTPResponse list \<Rightarrow> TimeConsensus) \<Rightarrow> NTPResponse list \<Rightarrow> TimeConsensus" where
  "spec_compute_consensus ecfg other samples =
     (other samples)\<lparr>TimeConsensus.sources_used := spec_sources_used ecfg samples,
                      TimeConsensus.total_sources := spec_total_sources samples\<rparr>"

text \<open>
  Modelled from the spec: the environment \<open>env\<close> with the client and the engine above in
  the place of the missing ntp_client.py and consensus.py; neither of them raises
  (sections 4.1 and 7).
\<close>

definition spec_collaborators ::
  "(string \<Rightarrow> NTPResponse) \<Rightarrow> engine_config \<Rightarrow> (NTPResponse list \<Rightarrow> TimeConsensus) \<Rightarrow> env \<Rightarrow> env" where
  "spec_collaborators query ecfg other env =
     env\<lparr>query_multiple_servers := \<lambda>servers. Inr (spec_query_multiple_servers query servers),
         compute_consensus := \<lambda>samples. Inr (spec_compute_consensus ecfg other samples)\<rparr>"

section \<open>A concrete environment\<close>

text \<open>
  \<^verbatim>\<open>datetime.isoformat()\<close> of an aware datetime, by the civil-calendar computation on
  the days since the epoch.
\<close>

definition zero_pad :: "nat \<Rightarrow> nat \<Rightarrow> string" where
  "zero_pad width n = replicate (width - length (string_of_nat n)) CHR ''0'' @ string_of_nat n"

definition civil_from_days :: "int \<Rightarrow> int \<times> int \<times> int" where
  "civil_from_days days =
     (let z = days + 719468;
          era = z div 146097;
          doe = z - era * 146097;
          yoe = (doe - doe div 1460 + doe div 36524 - doe div 146096) div 365;
          doy = doe - (365 * yoe + yoe div 4 - yoe div 100);
          mp = (5 * doy + 2) div 153;
          d = doy - (153 * mp + 2) div 5 + 1;
          m = (if mp < 10 then mp + 3 else mp - 9);
          y = yoe + era * 400 + (if m \<le> 2 then 1 else 0)
      in (y, m, d))"

definition datetime_isoformat :: "datetime \<Rightarrow> string" where
  "datetime_isoformat dt =
     (let local_micros = dt_micros dt + dt_utcoffset dt * 1000000;
          secs = local_micros div 1000000;
          micros = local_micros mod 1000000;
          (y, m, d) = civil_from_days (secs div 86400);
          sod = secs mod 86400;
          off = \<bar>dt_utcoffset dt\<bar>
      in zero_pad 4 (nat y) @ ''-'' @ zero_pad 2 (nat m) @ ''-'' @ zero_pad 2 (nat d) @ ''T'' @
         zero_pad 2 (nat (sod div 3600)) @ '':'' @ zero_pad 2 (nat (sod mod 3600 div 60)) @ '':'' @
         zero_pad 2 (nat (sod mod 60)) @
         (if micros = 0 then [] else ''.'' @ zero_pad 6 (nat micros)) @
         (if dt_utcoffset dt < 0 then ''-'' else ''+'') @
         zero_pad 2 (nat (off div 3600)) @ '':'' @ zero_pad 2 (nat (off mod 3600 div 60)) @
         (if off mod 60 = 0 then [] else '':'' @ zero_pad 2 (nat (off mod 60))))"

text \<open>A zone database of two zones without daylight saving time.\<close>

definition mock_ZoneInfo :: "string \<Rightarrow> py_exception + tzinfo" where
  "mock_ZoneInfo key =
     (if key = ''UTC'' then Inr (\<lambda>t. 0)
      else if key = ''Asia/Tokyo'' then Inr (\<lambda>t. 32400)
      else Inl (Exception (''No time zone found with key '' @ key)))"

text \<open>
  The consensus result of \<^verbatim>\<open>test_get_time_utc_latency_compensation_warnings\<close>, and an
  environment with the mocks of that test: the client returns no response, the engine
  returns \<open>mock_consensus\<close>, and the clock gives the three readings.
\<close>

definition mock_consensus :: TimeConsensus where
  "mock_consensus = \<lparr>
     timestamp = 1700000000,
     iso8601_time = ''2025-11-28T10:00:00.000000+00:00'',
     epoch_ms = 1700000000000,
     sources_used = 4,
     total_sources = 4,
     consensus_method = MEDIAN_WITH_OUTLIER_REJECTION,
     estimated_error_ms = 10,
     source_samples = [],
     warnings = [],
     system_time = ''2025-11-28T10:00:00.000000+00:00'',
     system_delta_ms = 0\<rparr>"

definition mock_config :: config where
  "mock_config = \<lparr>
     ntp_servers = [''ntp1'', ''ntp2'', ''ntp3'', ''ntp4'', ''ntp5'', ''ntp6'', ''ntp7''],
     fast_mode_server_count = 4\<rparr>"

definition mock_env :: "real \<Rightarrow> real \<Rightarrow> real \<Rightarrow> env" where
  "mock_env t_start t_end t_system = \<lparr>
     config = mock_config,
     query_multiple_servers = (\<lambda>servers. Inr []),
     compute_consensus = (\<lambda>responses. Inr mock_consensus),
     time_query_start = t_start,
     time_query_end = t_end,
     time_current_system = t_system,
     isoformat = datetime_isoformat,
     ZoneInfo = mock_ZoneInfo\<rparr>"

text \<open>
  A network for the concrete environment: every server answers, the first three within
  10 ms of each other and every other one two seconds ahead; and an engine configuration
  that rejects a sample more than 500 ms from the median and asks for three sources.
\<close>

definition mock_query :: "string \<Rightarrow> NTPResponse" where
  "mock_query name = \<lparr>
     NTPResponse.server = name,
     NTPResponse.timestamp =
       (if name = ''ntp1'' then 1700000000
        else if name = ''ntp2'' then 1700000000 + 5 / 1000
        else if name = ''ntp3'' then 1700000000 + 10 / 1000
        else 1700000002),
     NTPResponse.rtt_ms = 20,
     NTPResponse.stratum = 2,
     NTPResponse.success = True,
     NTPResponse.error = None,
     NTPResponse.error_type = None\<rparr>"

definition mock_engine_config :: engine_config where
  "mock_engine_config = \<lparr>max_outlier_deviation_ms = 500, min_sources = 3\<rparr>"


section \<open>Evaluation of the concrete environment\<close>



lemma mock_env_sel:
  "query_multiple_servers (mock_env a b c) servers = Inr []"
  "compute_consensus (mock_env a b c) responses = Inr mock_consensus"
  "time_query_start (mock_env a b c) = a"
  "time_query_end (mock_env a b c) = b"
  "time_current_system (mock_env a b c) = c"
  "isoformat (mock_env a b c) = datetime_isoformat"
  "ZoneInfo (mock_env a b c) = mock_ZoneInfo"
  "config (mock_env a b c) = mock_config"
  by (simp_all add: mock_env_def)

lemma mock_consensus_sel:
  "TimeConsensus.timestamp mock_consensus = 1700000000"
  "TimeConsensus.iso8601_time mock_consensus = ''2025-11-28T10:00:00.000000+00:00''"
  "TimeConsensus.epoch_ms mock_consensus = 1700000000000"
  "TimeConsensus.sources_used mock_consensus = 4"
  "TimeConsensus.total_sources mock_consensus = 4"
  "TimeConsensus.consensus_method mock_consensus = MEDIAN_WITH_OUTLIER_REJECTION"
  "TimeConsensus.estimated_error_ms mock_consensus = 10"
  "TimeConsensus.source_samples mock_consensus = []"
  "TimeConsensus.warnings mock_consensus = []"
  "TimeConsensus.system_time mock_consensus = ''2025-11-28T10:00:00.000000+00:00''"
  "TimeConsensus.system_delta_ms mock_consensus = 0"
  by (simp_all add: mock_consensus_def)

lemma civil_19675: "civil_from_days 19675 = (2023, 11, 14)"
  unfolding civil_from_days_def Let_def by simp

lemma fromtimestamp_utc_150:
  "fromtimestamp_utc (34000000003 / 20) = \<lparr>dt_micros = 1700000000150000, dt_utcoffset = 0\<rparr>"
  by (simp add: fromtimestamp_utc_def round_half_even_def Let_def)

lemma isoformat_150:
  "datetime_isoformat \<lparr>dt_micros = 1700000000150000, dt_utcoffset = 0\<rparr> =
     ''2023-11-14T22:13:20.150000+00:00''"
  unfolding datetime_isoformat_def Let_def
  by (simp add: civil_19675 zero_pad_def digit_char_def)

lemma format_1f_150: "format_1f 150 = ''150.0''"
  by (simp add: format_1f_def round_half_even_def Let_def digit_char_def)

text \<open>The response of the mocked environment without compensation.\<close>

lemma get_time_utc_mock_uncompensated:
  "get_time_utc (mock_env a b c) mode False =
     Inr \<lparr>iso8601_time = ''2025-11-28T10:00:00.000000+00:00'',
          epoch_ms = 1700000000000,
          sources_used = 4, total_sources = 4,
          consensus_method = ''median_with_outlier_rejection'',
          estimated_error_ms = 10,
          source_samples = [],
          warnings = [],
          system_time = ''2025-11-28T10:00:00.000000+00:00'',
          system_delta_ms = 0,
          query_duration_ms = (b - a) * 1000,
          latency_compensated = False\<rparr>"
  by (simp add: get_time_utc_def mock_env_sel mock_consensus_sel Let_def)

text \<open>With compensation, for a query that took no time: the delta is the third reading.\<close>

lemma get_time_utc_mock_delta:
  "\<exists>r. get_time_utc (mock_env 1700000000 1700000000 (1700000000 + d / 1000)) mode True = Inr r
      \<and> TimeResponse.system_delta_ms r = d"
  by (simp add: get_time_utc_def mock_env_sel mock_consensus_sel Let_def)



lemma mock_ZoneInfo_sel:
  "mock_ZoneInfo ''Asia/Tokyo'' = Inr (\<lambda>t. 32400)"
  "mock_ZoneInfo ''Invalid/Timezone'' =
     Inl (Exception ''No time zone found with key Invalid/Timezone'')"
  by (simp_all add: mock_ZoneInfo_def)

lemma spec_retained_length: "length (spec_retained ecfg samples) \<le> length samples"
proof -
  have f: "length (filter P (filter NTPResponse.success samples)) \<le> length samples" for P
    by (rule order_trans [OF length_filter_le length_filter_le])
  show ?thesis
    by (simp add: spec_retained_def Let_def f)
qed

lemma select_servers_mock:
  "select_servers mock_config ''fast'' = [''ntp1'', ''ntp2'', ''ntp3'', ''ntp4'']"
  "select_servers mock_config ''accurate'' =
     [''ntp1'', ''ntp2'', ''ntp3'', ''ntp4'', ''ntp5'', ''ntp6'', ''ntp7'']"
  "select_servers mock_config ''bogus'' =
     [''ntp1'', ''ntp2'', ''ntp3'', ''ntp4'', ''ntp5'', ''ntp6'', ''ntp7'']"
  by (simp_all add: select_servers_def mock_config_def py_slice_to_def)

lemma mock_median:
  "median [1700000000, 1700000000 + 5 / 1000, 1700000000 + 10 / 1000, 1700000002] =
     1700000000 + 75 / 10000"
  by (simp add: median_def)

lemma mock_sources_used:
  "spec_sources_used mock_engine_config
     [mock_query ''ntp1'', mock_query ''ntp2'', mock_query ''ntp3'', mock_query ''ntp4''] = 3"
  using mock_median
  by (simp add: spec_sources_used_def spec_retained_def mock_query_def mock_engine_config_def)


section \<open>Latency compensation\<close>

text \<open>
  Claim C1. Whenever the client and the engine return, \<^verbatim>\<open>get_time_utc\<close> with
  \<^verbatim>\<open>compensate_latency\<close> true returns a response whose time is the consensus timestamp
  plus the elapsed query duration (as ISO text and as whole milliseconds), whose estimated
  error is the consensus error plus a tenth of the elapsed milliseconds, whose system
  delta is the third clock reading minus the compensated timestamp, in milliseconds, and
  whose warnings are those of the consensus, followed by the latency warning exactly when
  the elapsed duration is more than 100 ms.
\<close>

theorem get_time_utc_compensated:
  assumes "query_multiple_servers env (select_servers (config env) mode) = Inr responses"
      and "compute_consensus env responses = Inr consensus"
  shows "\<exists>r. get_time_utc env mode True = Inr r
           \<and> (let query_duration = time_query_end env - time_query_start env;
                   compensated = TimeConsensus.timestamp consensus + query_duration
               in TimeResponse.iso8601_time r = isoformat env (fromtimestamp_utc compensated)
                \<and> TimeResponse.epoch_ms r = py_int (compensated * 1000)
                \<and> TimeResponse.estimated_error_ms r =
                    TimeConsensus.estimated_error_ms consensus + (query_duration * 1000) / 10
                \<and> TimeResponse.system_delta_ms r = (time_current_system env - compensated) * 1000
                \<and> TimeResponse.warnings r =
                    (if 100 < query_duration * 1000
                     then TimeConsensus.warnings consensus @
                          [''Applied +'' @ format_1f (query_duration * 1000) @
                           ''ms latency compensation to timestamp'']
                     else TimeConsensus.warnings consensus))"
  using assms by (simp add: get_time_utc_def Let_def)

text \<open>The mocked query of 150 ms, read 50 ms before the system clock.\<close>

theorem get_time_utc_compensated_witness:
  "\<exists>r. get_time_utc (mock_env 1700000000 (1700000000 + 15/100) (1700000000 + 2/10)) ''fast'' True = Inr r
     \<and> TimeResponse.iso8601_time r = ''2023-11-14T22:13:20.150000+00:00''
     \<and> TimeResponse.epoch_ms r = 1700000000150
     \<and> TimeResponse.estimated_error_ms r = 25
     \<and> TimeResponse.system_delta_ms r = 50
     \<and> TimeResponse.warnings r = [''Applied +150.0ms latency compensation to timestamp'']"
  using get_time_utc_compensated
          [of "mock_env 1700000000 (1700000000 + 15/100) (1700000000 + 2/10)" "''fast''" "[]"
              mock_consensus]
  by (simp add: mock_env_sel mock_consensus_sel py_int_def fromtimestamp_utc_150 isoformat_150
        format_1f_150)

text \<open>
  Claim C10. Whenever the client and the engine return, \<^verbatim>\<open>get_time_utc\<close> with
  \<^verbatim>\<open>compensate_latency\<close> false returns the consensus result's ISO time, epoch
  milliseconds, estimated error, warnings and system delta unchanged; and for either
  value of the argument the flag \<^verbatim>\<open>latency_compensated\<close> of the response is the argument.
\<close>

theorem get_time_utc_uncompensated:
  assumes "query_multiple_servers env (select_servers (config env) mode) = Inr responses"
      and "compute_consensus env responses = Inr consensus"
  shows "(\<exists>r. get_time_utc env mode False = Inr r
           \<and> TimeResponse.iso8601_time r = TimeConsensus.iso8601_time consensus
           \<and> TimeResponse.epoch_ms r = TimeConsensus.epoch_ms consensus
           \<and> TimeResponse.estimated_error_ms r = TimeConsensus.estimated_error_ms consensus
           \<and> TimeResponse.warnings r = TimeConsensus.warnings consensus
           \<and> TimeResponse.system_delta_ms r = TimeConsensus.system_delta_ms consensus)
       \<and> (\<exists>r. get_time_utc env mode compensate_latency = Inr r
           \<and> latency_compensated r = compensate_latency)"
  using assms by (simp add: get_time_utc_def Let_def split: prod.splits)

theorem get_time_utc_uncompensated_witness:
  "(\<exists>r. get_time_utc (mock_env 1700000000 (1700000000 + 15/100) (1700000000 + 2/10)) ''fast'' False = Inr r
      \<and> TimeResponse.iso8601_time r = ''2025-11-28T10:00:00.000000+00:00''
      \<and> TimeResponse.epoch_ms r = 1700000000000
      \<and> TimeResponse.estimated_error_ms r = 10
      \<and> TimeResponse.warnings r = []
      \<and> TimeResponse.system_delta_ms r = 0)
   \<and> (\<exists>r. get_time_utc (mock_env 1700000000 (1700000000 + 15/100) (1700000000 + 2/10)) ''fast'' True = Inr r
      \<and> latency_compensated r = True)"
  using get_time_utc_uncompensated
          [of "mock_env 1700000000 (1700000000 + 15/100) (1700000000 + 2/10)" "''fast''" "[]"
              mock_consensus True]
  by (simp add: mock_env_sel mock_consensus_sel)

text \<open>
  Claim C5. For one consensus result and an elapsed duration that is not negative, the
  estimated error reported with compensation is at least the one reported without, and
  the latter is the consensus result's own.
\<close>

theorem latency_compensation_monotone:
  assumes "query_multiple_servers env (select_servers (config env) mode) = Inr responses"
      and "compute_consensus env responses = Inr consensus"
      and "time_query_start env \<le> time_query_end env"
  shows "\<exists>r0 r1. get_time_utc env mode False = Inr r0 \<and> get_time_utc env mode True = Inr r1
           \<and> TimeResponse.estimated_error_ms r0 = TimeConsensus.estimated_error_ms consensus
           \<and> TimeResponse.estimated_error_ms r0 \<le> TimeResponse.estimated_error_ms r1"
  using assms by (simp add: get_time_utc_def Let_def)

theorem latency_compensation_monotone_witness:
  "\<exists>r0 r1. get_time_utc (mock_env 1700000000 (1700000000 + 15/100) (1700000000 + 2/10)) ''fast'' False = Inr r0
      \<and> get_time_utc (mock_env 1700000000 (1700000000 + 15/100) (1700000000 + 2/10)) ''fast'' True = Inr r1
      \<and> TimeResponse.estimated_error_ms r0 = 10
      \<and> TimeResponse.estimated_error_ms r0 \<le> TimeResponse.estimated_error_ms r1"
  using latency_compensation_monotone
          [of "mock_env 1700000000 (1700000000 + 15/100) (1700000000 + 2/10)" "''fast''" "[]"
              mock_consensus]
  by (simp add: mock_env_sel mock_consensus_sel)

section \<open>The system-clock delta\<close>



section \<open>Drift classification\<close>

text \<open>
  Claim C2. \<^verbatim>\<open>compare_system_clock\<close> reports the delta of the compensated UTC response
  and classifies it: ok below 100 ms in absolute value, drift from 100 ms to below
  1000 ms, error from 1000 ms on.
\<close>

theorem compare_system_clock_status:
  assumes "get_time_utc env mode True = Inr time_response"
  shows "\<exists>c. compare_system_clock env mode = Inr c
           \<and> delta_ms c = TimeResponse.system_delta_ms time_response
           \<and> (\<bar>delta_ms c\<bar> < 100 \<longrightarrow> status c = OK)
           \<and> (100 \<le> \<bar>delta_ms c\<bar> \<and> \<bar>delta_ms c\<bar> < 1000 \<longrightarrow> status c = DRIFT)
           \<and> (1000 \<le> \<bar>delta_ms c\<bar> \<longrightarrow> status c = ERROR)"
  using assms by (simp add: compare_system_clock_def Let_def)

text \<open>The boundaries: 99.9 is ok, 100 and 999.9 are drift, 1000 is an error.\<close>

theorem compare_system_clock_status_witness:
  "(\<exists>c. compare_system_clock (mock_env 1700000000 1700000000 (1700000000 + 99.9 / 1000)) ''fast'' = Inr c
       \<and> delta_ms c = 99.9 \<and> status c = OK)
 \<and> (\<exists>c. compare_system_clock (mock_env 1700000000 1700000000 (1700000000 + 100 / 1000)) ''fast'' = Inr c
       \<and> delta_ms c = 100 \<and> status c = DRIFT)
 \<and> (\<exists>c. compare_system_clock (mock_env 1700000000 1700000000 (1700000000 + 999.9 / 1000)) ''fast'' = Inr c
       \<and> delta_ms c = 999.9 \<and> status c = DRIFT)
 \<and> (\<exists>c. compare_system_clock (mock_env 1700000000 1700000000 (1700000000 + 1000 / 1000)) ''fast'' = Inr c
       \<and> delta_ms c = 1000 \<and> status c = ERROR)"
proof -
  have *: "\<exists>c. compare_system_clock (mock_env 1700000000 1700000000 (1700000000 + d / 1000)) ''fast'' = Inr c
            \<and> delta_ms c = d
            \<and> (\<bar>d\<bar> < 100 \<longrightarrow> status c = OK)
            \<and> (100 \<le> \<bar>d\<bar> \<and> \<bar>d\<bar> < 1000 \<longrightarrow> status c = DRIFT)
            \<and> (1000 \<le> \<bar>d\<bar> \<longrightarrow> status c = ERROR)" for d
  proof -
    obtain r where r: "get_time_utc (mock_env 1700000000 1700000000 (1700000000 + d / 1000)) ''fast'' True = Inr r"
      and d: "TimeResponse.system_delta_ms r = d"
      using get_time_utc_mock_delta by blast
    from compare_system_clock_status [OF r] d show ?thesis by auto
  qed
  from * [of "99.9"] * [of 100] * [of "999.9"] * [of 1000] show ?thesis
    by simp
qed

section \<open>Timezone conversion\<close>

text \<open>
  Claim C3. When \<^verbatim>\<open>get_time_utc\<close> returns and the zone name is not resolvable
  (\<^verbatim>\<open>ZoneInfo\<close> raises), \<^verbatim>\<open>get_time_for_timezone\<close> still returns: the local time is
  \<^verbatim>\<open>"ERROR: "\<close> followed by the exception's text, one warning that names the requested
  zone is appended to the warnings of the UTC response, and every other field of the UTC
  response is carried over unchanged.
\<close>

theorem get_time_for_timezone_unresolvable:
  assumes "get_time_utc env mode compensate_latency = Inr time_response"
      and "ZoneInfo env timezone_name = Inl e"
  shows "\<exists>r. get_time_for_timezone env timezone_name mode compensate_latency = Inr r
           \<and> local_time r = ''ERROR: '' @ exc_str e
           \<and> timezone r = timezone_name
           \<and> TimeResponse.warnings r = TimeResponse.warnings time_response @
                [''Failed to convert to timezone '' @ timezone_name @ '': '' @ exc_str e]
           \<and> TimeResponse.iso8601_time r = TimeResponse.iso8601_time time_response
           \<and> TimeResponse.epoch_ms r = TimeResponse.epoch_ms time_response
           \<and> TimeResponse.sources_used r = TimeResponse.sources_used time_response
           \<and> TimeResponse.total_sources r = TimeResponse.total_sources time_response
           \<and> TimeResponse.consensus_method r = TimeResponse.consensus_method time_response
           \<and> TimeResponse.estimated_error_ms r = TimeResponse.estimated_error_ms time_response
           \<and> TimeResponse.source_samples r = TimeResponse.source_samples time_response
           \<and> TimeResponse.system_time r = TimeResponse.system_time time_response
           \<and> TimeResponse.system_delta_ms r = TimeResponse.system_delta_ms time_response
           \<and> query_duration_ms r = query_duration_ms time_response
           \<and> latency_compensated r = latency_compensated time_response"
  using assms
  by (simp add: get_time_for_timezone_def convert_to_timezone_def Let_def
        TimeResponse.defs TimezoneResponse.defs)

theorem get_time_for_timezone_unresolvable_witness:
  "\<exists>r. get_time_for_timezone (mock_env 1700000000 (1700000000 + 15/100) (1700000000 + 2/10))
         ''Invalid/Timezone'' ''fast'' False = Inr r
     \<and> local_time r = ''ERROR: No time zone found with key Invalid/Timezone''
     \<and> timezone r = ''Invalid/Timezone''
     \<and> TimeResponse.warnings r =
          [''Failed to convert to timezone Invalid/Timezone: No time zone found with key Invalid/Timezone'']
     \<and> TimeResponse.iso8601_time r = ''2025-11-28T10:00:00.000000+00:00''
     \<and> TimeResponse.epoch_ms r = 1700000000000
     \<and> TimeResponse.sources_used r = 4
     \<and> TimeResponse.total_sources r = 4
     \<and> TimeResponse.consensus_method r = ''median_with_outlier_rejection''
     \<and> TimeResponse.estimated_error_ms r = 10
     \<and> TimeResponse.source_samples r = []
     \<and> TimeResponse.system_time r = ''2025-11-28T10:00:00.000000+00:00''
     \<and> TimeResponse.system_delta_ms r = 0
     \<and> query_duration_ms r = 150
     \<and> latency_compensated r = False"
  using get_time_for_timezone_unresolvable
          [OF get_time_utc_mock_uncompensated
                [of 1700000000 "1700000000 + 15/100" "1700000000 + 2/10" "''fast''"],
           where timezone_name = "''Invalid/Timezone''"
             and e = "Exception ''No time zone found with key Invalid/Timezone''"]
  by (simp add: mock_env_sel mock_ZoneInfo_sel)



section \<open>The consensus method\<close>

text \<open>
  Claim C4, as the code has it. The consensus-method type has exactly two values, the
  outlier-rejected median and the system fallback, and the method of every response of
  \<^verbatim>\<open>get_time_utc\<close> is the text of one of the two.
\<close>

theorem consensus_method_values:
  assumes "get_time_utc env mode compensate_latency = Inr r"
  shows "(UNIV :: ConsensusMethod set) = {MEDIAN_WITH_OUTLIER_REJECTION, SYSTEM_FALLBACK}
       \<and> MEDIAN_WITH_OUTLIER_REJECTION \<noteq> SYSTEM_FALLBACK
       \<and> TimeResponse.consensus_method r \<in> {''median_with_outlier_rejection'', ''system_fallback''}"
proof -
  have u: "(UNIV :: ConsensusMethod set) = {MEDIAN_WITH_OUTLIER_REJECTION, SYSTEM_FALLBACK}"
    using ConsensusMethod.exhaust by auto
  have v: "ConsensusMethod_value m \<in> {''median_with_outlier_rejection'', ''system_fallback''}" for m
    by (cases m) simp_all
  from assms obtain m where "TimeResponse.consensus_method r = ConsensusMethod_value m"
    by (auto simp add: get_time_utc_def Let_def split: sum.splits prod.splits)
  with u v [of m] show ?thesis by simp
qed

theorem consensus_method_values_witness:
  "\<exists>r. get_time_utc (mock_env 0 0 0) ''fast'' False = Inr r
     \<and> (UNIV :: ConsensusMethod set) = {MEDIAN_WITH_OUTLIER_REJECTION, SYSTEM_FALLBACK}
     \<and> MEDIAN_WITH_OUTLIER_REJECTION \<noteq> SYSTEM_FALLBACK
     \<and> TimeResponse.consensus_method r \<in> {''median_with_outlier_rejection'', ''system_fallback''}"
  using consensus_method_values [OF get_time_utc_mock_uncompensated [of 0 0 0 "''fast''"]]
        get_time_utc_mock_uncompensated [of 0 0 0 "''fast''"]
  by blast

text \<open>
  The type does not have three values, and none of its values is a single-source tag.
\<close>

theorem consensus_method_single_source_counterexample:
  "card (UNIV :: ConsensusMethod set) \<noteq> 3
   \<and> ''single_source'' \<notin> range ConsensusMethod_value
   \<and> ''single-source'' \<notin> range ConsensusMethod_value"
proof -
  have u: "(UNIV :: ConsensusMethod set) = {MEDIAN_WITH_OUTLIER_REJECTION, SYSTEM_FALLBACK}"
    using ConsensusMethod.exhaust by auto
  show ?thesis unfolding u by simp
qed

section \<open>Server selection and source counts\<close>

text \<open>
  Claim C6. For a fast-mode count that is not negative, fast mode selects the prefix of
  the configured server list of that length (the whole list when it is shorter) and
  accurate mode selects the whole list. With a client and an engine that follow the
  specification, \<^verbatim>\<open>get_time_utc\<close> returns, the samples that reach the engine are those
  of the selected servers in their order, \<^verbatim>\<open>total_sources\<close> is the number of selected
  servers, and \<^verbatim>\<open>sources_used\<close> is at most \<^verbatim>\<open>total_sources\<close>.
\<close>

theorem get_time_utc_server_selection:
  assumes "0 \<le> fast_mode_server_count (config env)"
  shows "select_servers (config env) (AccuracyMode_value FAST) =
           take (nat (fast_mode_server_count (config env))) (ntp_servers (config env))
       \<and> length (select_servers (config env) (AccuracyMode_value FAST)) =
           min (nat (fast_mode_server_count (config env))) (length (ntp_servers (config env)))
       \<and> select_servers (config env) (AccuracyMode_value ACCURATE) = ntp_servers (config env)
       \<and> (\<exists>r. get_time_utc (spec_collaborators query ecfg other env) mode compensate_latency = Inr r
            \<and> TimeResponse.total_sources r = int (length (select_servers (config env) mode))
            \<and> TimeResponse.sources_used r \<le> TimeResponse.total_sources r
            \<and> TimeResponse.source_samples r =
                TimeConsensus.source_samples (other (map query (select_servers (config env) mode))))"
proof -
  have a: "select_servers (config env) (AccuracyMode_value FAST) =
             take (nat (fast_mode_server_count (config env))) (ntp_servers (config env))"
    using assms by (simp add: select_servers_def py_slice_to_def)
  have b: "select_servers (config env) (AccuracyMode_value ACCURATE) = ntp_servers (config env)"
    by (simp add: select_servers_def)
  have c: "spec_sources_used ecfg (map query servers) \<le> int (length servers)" for servers
    using spec_retained_length [of ecfg "map query servers"]
    by (simp add: spec_sources_used_def)
  have "\<exists>r. get_time_utc (spec_collaborators query ecfg other env) mode compensate_latency = Inr r
            \<and> TimeResponse.total_sources r = int (length (select_servers (config env) mode))
            \<and> TimeResponse.sources_used r \<le> TimeResponse.total_sources r
            \<and> TimeResponse.source_samples r =
                TimeConsensus.source_samples (other (map query (select_servers (config env) mode)))"
    using c [of "select_servers (config env) mode"]
    by (simp add: get_time_utc_def spec_collaborators_def spec_query_multiple_servers_def
          spec_compute_consensus_def spec_total_sources_def Let_def split: prod.splits)
  with a b show ?thesis by (simp add: min.commute)
qed

text \<open>
  Four servers in fast mode, the fourth two seconds off: three sources are used of four.
\<close>

theorem get_time_utc_server_selection_witness:
  "select_servers mock_config ''fast'' = [''ntp1'', ''ntp2'', ''ntp3'', ''ntp4'']
   \<and> select_servers mock_config ''accurate'' =
       [''ntp1'', ''ntp2'', ''ntp3'', ''ntp4'', ''ntp5'', ''ntp6'', ''ntp7'']
   \<and> (\<exists>r. get_time_utc
             (spec_collaborators mock_query mock_engine_config (\<lambda>samples. mock_consensus)
                (mock_env 1700000000 (1700000000 + 15/100) (1700000000 + 2/10)))
             ''fast'' True = Inr r
        \<and> TimeResponse.total_sources r = 4
        \<and> TimeResponse.sources_used r = 3
        \<and> TimeResponse.sources_used r \<le> TimeResponse.total_sources r)"
proof -
  let ?env = "mock_env 1700000000 (1700000000 + 15/100) (1700000000 + 2/10)"
  let ?env' = "spec_collaborators mock_query mock_engine_config (\<lambda>samples. mock_consensus) ?env"
  have h: "0 \<le> fast_mode_server_count (config ?env)"
    by (simp add: mock_env_sel mock_config_def)
  from get_time_utc_server_selection
         [OF h, of mock_query mock_engine_config "\<lambda>samples. mock_consensus" "''fast''" True]
  obtain r where r: "get_time_utc ?env' ''fast'' True = Inr r"
    and t: "TimeResponse.total_sources r = 4"
    and u: "TimeResponse.sources_used r \<le> TimeResponse.total_sources r"
    by (auto simp add: mock_env_sel select_servers_mock)
  have "\<exists>r'. get_time_utc ?env' ''fast'' True = Inr r' \<and> TimeResponse.sources_used r' = 3"
    by (simp add: get_time_utc_def spec_collaborators_def spec_query_multiple_servers_def
          spec_compute_consensus_def mock_env_def select_servers_mock mock_sources_used Let_def
          split: prod.splits)
  with r have "TimeResponse.sources_used r = 3" by auto
  with r t u show ?thesis by (auto simp add: select_servers_mock)
qed

section \<open>Invalid requests\<close>




end
